theory Spec2Isabelle
  imports Main
begin

section \<open>Python values used by the three servers\<close>

text \<open>
  A Python \<open>str\<close> is a sequence of Unicode code points, so a string is modelled as the
  list of its code points. \<open>str\<close> turns an ASCII literal into that representation.
\<close>

type_synonym pystr = "nat list"

definition str :: "string \<Rightarrow> pystr" where
  "str s = map of_char s"

text \<open>
  \<open>str.strip()\<close> without argument removes leading and trailing whitespace.
  CPython decides whitespace by the code point: the ASCII controls 0x09-0x0D and
  0x1C-0x1F, the space, and the Unicode separators listed below.
\<close>

definition isspace :: "nat \<Rightarrow> bool" where
  "isspace c \<longleftrightarrow>
     (9 \<le> c \<and> c \<le> 13) \<or> (28 \<le> c \<and> c \<le> 32) \<or> c = 133 \<or> c = 160 \<or> c = 5760 \<or>
     (8192 \<le> c \<and> c \<le> 8202) \<or> c = 8232 \<or> c = 8233 \<or> c = 8239 \<or> c = 8287 \<or>
     c = 12288"

definition strip :: "pystr \<Rightarrow> pystr" where
  "strip s = rev (dropWhile isspace (rev (dropWhile isspace s)))"

text \<open>
  What a call raises. \<open>except Exception\<close> catches the instances of \<open>Exception\<close>;
  an instance of \<open>BaseException\<close> outside that class (a cancellation, an interpreter
  exit) passes through it.
\<close>

datatype raised = Exception pystr | BaseExceptionOnly pystr

section \<open>Data model\<close>

text \<open>
  \<open>genai_types.Part\<close> and \<open>genai_types.Content\<close>: every field is optional in the
  library; this layer reads only \<open>text\<close> and \<open>parts\<close> (and writes \<open>role\<close>).
\<close>

record part =
  part_text :: "pystr option"

record content =
  role :: "pystr option"
  parts :: "part list option"

text \<open>An event of the runner: its author and its optional content.\<close>

record event =
  author :: pystr
  content :: "content option"

text \<open>\<open>SimpleChatRequest\<close> (app, orchestrator) and \<open>ChatRequest\<close> (judge): the same three fields.\<close>

record chat_request =
  message :: pystr
  user_id :: pystr
  session_id :: pystr

section \<open>Buffered aggregation (\<open>chat\<close> in app/server.py and judge/app/server.py)\<close>

text \<open>
  \<^verbatim>\<open>
  for part in event.content.parts:
      if part.text:
          final_text += part.text + "\n"
  \<close>
  \<open>part.text\<close> is truthy when it is neither \<open>None\<close> nor the empty string.
\<close>

fun chat_parts :: "pystr \<Rightarrow> part list \<Rightarrow> pystr" where
  "chat_parts final_text [] = final_text"
| "chat_parts final_text (p # ps) =
     chat_parts
       (case part_text p of
          None \<Rightarrow> final_text
        | Some t \<Rightarrow> if t \<noteq> [] then final_text @ (t @ [10]) else final_text)
       ps"

text \<open>
  \<^verbatim>\<open>
  async for event in runner.run_async(...):
      if event.content and event.content.parts:
          for part in event.content.parts: ...
  \<close>
  The guard is false when the content is \<open>None\<close>, when \<open>parts\<close> is \<open>None\<close> and when
  \<open>parts\<close> is the empty list.
\<close>

fun chat_events :: "pystr \<Rightarrow> event list \<Rightarrow> pystr" where
  "chat_events final_text [] = final_text"
| "chat_events final_text (e # es) =
     chat_events
       (case content e of
          None \<Rightarrow> final_text
        | Some c \<Rightarrow>
            (case parts c of
               None \<Rightarrow> final_text
             | Some ps \<Rightarrow> if ps \<noteq> [] then chat_parts final_text ps else final_text))
       es"

text \<open>The body returned for a turn that completes: \<open>{"response": final_text.strip()}\<close>.\<close>

record chat_response =
  response :: pystr

definition chat_body :: "event list \<Rightarrow> chat_response" where
  "chat_body events = \<lparr>response = strip (chat_events [] events)\<rparr>"

section \<open>Session service and runner\<close>

text \<open>
  The session service and the runner are objects of the agent framework
  (\<open>InMemorySessionService()\<close>, \<open>Runner(...)\<close>); the servers only call them. They are
  parameters of the model: functions over a state \<open>'s\<close> of the framework, each returning
  what the call returns or raises together with the state it leaves behind. A session
  is addressed by the triple (app_name, user_id, session_id).
  A turn of \<open>runner.run_async\<close> is the finite list of events it yields and, when the
  iteration ends by raising, what it raises.
\<close>

record session =
  sess_app_name :: pystr
  sess_user_id :: pystr
  sess_id :: pystr

type_synonym triple = "pystr \<times> pystr \<times> pystr"

type_synonym turn = "event list \<times> raised option"

record 's services =
  app_name :: pystr
  get_session :: "'s \<Rightarrow> triple \<Rightarrow> (raised + session option) \<times> 's"
  create_session :: "'s \<Rightarrow> triple \<Rightarrow> (raised + session) \<times> 's"
  run_async :: "'s \<Rightarrow> pystr \<Rightarrow> pystr \<Rightarrow> content \<Rightarrow> turn \<times> 's"

section \<open>Session resolution (the same lines in all three handlers)\<close>

text \<open>
  \<^verbatim>\<open>
  try:
      session = await runner.session_service.get_session(
          session_id=request.session_id, app_name=adk_app.name, user_id=request.user_id)
  except Exception:
      session = None
  if not session:
      session = await runner.session_service.create_session(
          app_name=adk_app.name, user_id=request.user_id, session_id=request.session_id)
  \<close>
  A session object is truthy, so \<open>not session\<close> holds exactly for \<open>None\<close>.
\<close>

definition resolve_session :: "'s services \<Rightarrow> 's \<Rightarrow> chat_request \<Rightarrow> (raised + session) \<times> 's" where
  "resolve_session svc st request =
     (let k = (app_name svc, user_id request, session_id request) in
      case get_session svc st k of
        (Inl (BaseExceptionOnly x), st1) \<Rightarrow> (Inl (BaseExceptionOnly x), st1)
      | (Inl (Exception x), st1) \<Rightarrow> create_session svc st1 k
      | (Inr None, st1) \<Rightarrow> create_session svc st1 k
      | (Inr (Some session), st1) \<Rightarrow> (Inr session, st1))"

text \<open>
  \<open>genai_types.Content(role="user", parts=[genai_types.Part.from_text(text=request.message)])\<close>
\<close>

definition user_msg :: "chat_request \<Rightarrow> content" where
  "user_msg request =
     \<lparr>role = Some (str ''user''), parts = Some [\<lparr>part_text = Some (message request)\<rparr>]\<rparr>"

section \<open>The buffered endpoint \<open>POST /api/chat\<close>\<close>

text \<open>
  The handler resolves the session, runs the turn on \<open>session.id\<close> and returns the
  body. Whatever session creation or the runner raises leaves the handler.
\<close>

definition chat :: "'s services \<Rightarrow> 's \<Rightarrow> chat_request \<Rightarrow> (raised + chat_response) \<times> 's" where
  "chat svc st request =
     (case resolve_session svc st request of
        (Inl x, st1) \<Rightarrow> (Inl x, st1)
      | (Inr session, st1) \<Rightarrow>
          (case run_async svc st1 (user_id request) (sess_id session) (user_msg request) of
             ((events, Some x), st2) \<Rightarrow> (Inl x, st2)
           | ((events, None), st2) \<Rightarrow> (Inr (chat_body events), st2)))"

section \<open>Serialising a record: \<open>json.dumps(d) + "\n"\<close>\<close>

text \<open>
  The streaming endpoint writes dictionaries with the two keys \<open>"type"\<close> and
  \<open>"text"\<close>, in that order. \<open>json.dumps\<close> with its defaults (\<open>ensure_ascii=True\<close>,
  separators \<open>", "\<close> and \<open>": "\<close>) writes a string between double quotes, with
  \<open>"\<close> and \<open>\\<close> preceded by a backslash, the controls 8, 9, 10, 12, 13 as
  \<open>\b \t \n \f \r\<close>, every other code point outside 0x20-0x7E as \<open>\uXXXX\<close> in four
  lower-case hexadecimal digits, and a code point above 0xFFFF as a surrogate pair.
  Code 92 is the backslash, 34 the double quote, 117 the letter u.
\<close>

record stream_record =
  rec_type :: pystr
  rec_text :: pystr

definition hex_digit :: "nat \<Rightarrow> nat" where
  "hex_digit d = (if d < 10 then 48 + d else 87 + d)"

definition hex4 :: "nat \<Rightarrow> pystr" where
  "hex4 n = [hex_digit (n div 4096 mod 16), hex_digit (n div 256 mod 16),
             hex_digit (n div 16 mod 16), hex_digit (n mod 16)]"

definition escape_char :: "nat \<Rightarrow> pystr" where
  "escape_char c =
     (if c = 92 then [92, 92]
      else if c = 34 then [92, 34]
      else if c = 8 then [92, 98]
      else if c = 12 then [92, 102]
      else if c = 10 then [92, 110]
      else if c = 13 then [92, 114]
      else if c = 9 then [92, 116]
      else if 32 \<le> c \<and> c \<le> 126 then [c]
      else if c < 65536 then [92, 117] @ hex4 c
      else (let n = c - 65536 in
            [92, 117] @ hex4 (55296 + n div 1024 mod 1024) @
            [92, 117] @ hex4 (56320 + n mod 1024)))"

definition encode_string :: "pystr \<Rightarrow> pystr" where
  "encode_string s = [34] @ concat (map escape_char s) @ [34]"

definition json_dumps :: "stream_record \<Rightarrow> pystr" where
  "json_dumps d =
     str ''{\"type\": '' @ encode_string (rec_type d) @
     str '', \"text\": '' @ encode_string (rec_text d) @ str ''}''"

definition progress_line :: "pystr \<Rightarrow> pystr" where
  "progress_line t = json_dumps \<lparr>rec_type = str ''progress'', rec_text = t\<rparr> @ [10]"

definition result_line :: "pystr \<Rightarrow> pystr" where
  "result_line t = json_dumps \<lparr>rec_type = str ''result'', rec_text = t\<rparr> @ [10]"

section \<open>The streaming endpoint \<open>POST /api/chat_stream\<close> (orchestrator/app/server.py)\<close>

text \<open>
  The three status texts start with an emoji: U+1F50D; U+2696 U+FE0F; U+270D U+FE0F.
\<close>

definition researcher_text :: pystr where
  "researcher_text = [128269] @ str '' Researcher is gathering information...''"

definition judge_text :: pystr where
  "judge_text = [9878, 65039] @ str '' Judge is evaluating findings...''"

definition content_builder_text :: pystr where
  "content_builder_text = [9997, 65039] @ str '' Content Builder is writing the course...''"

text \<open>
  \<^verbatim>\<open>
  if event.author == "researcher":
       yield json.dumps({"type": "progress", "text": "... Researcher is gathering information..."}) + "\n"
  elif event.author == "judge": ...
  elif event.author == "content_builder": ...
  \<close>
  The lines one event makes the generator yield before its text is accumulated.
\<close>

definition progress_update :: "event \<Rightarrow> pystr list" where
  "progress_update e =
     (if author e = str ''researcher'' then [progress_line researcher_text]
      else if author e = str ''judge'' then [progress_line judge_text]
      else if author e = str ''content_builder'' then [progress_line content_builder_text]
      else [])"

text \<open>
  \<^verbatim>\<open>
  for part in event.content.parts:
      if part.text:
          final_text += part.text
  \<close>
\<close>

fun stream_parts :: "pystr \<Rightarrow> part list \<Rightarrow> pystr" where
  "stream_parts final_text [] = final_text"
| "stream_parts final_text (p # ps) =
     stream_parts
       (case part_text p of
          None \<Rightarrow> final_text
        | Some t \<Rightarrow> if t \<noteq> [] then final_text @ t else final_text)
       ps"

text \<open>
  The loop of \<open>event_generator\<close>: the lines yielded while the events are consumed, and
  \<open>final_text\<close> when the events are exhausted.
\<close>

fun stream_events :: "pystr \<Rightarrow> event list \<Rightarrow> pystr list \<times> pystr" where
  "stream_events final_text [] = ([], final_text)"
| "stream_events final_text (e # es) =
     (let final_text' =
            (case content e of
               None \<Rightarrow> final_text
             | Some c \<Rightarrow>
                 (case parts c of
                    None \<Rightarrow> final_text
                  | Some ps \<Rightarrow> if ps \<noteq> [] then stream_parts final_text ps else final_text));
          rest = stream_events final_text' es
      in (progress_update e @ fst rest, snd rest))"

text \<open>
  The generator on a turn. When the runner's iteration completes, the result line
  follows the loop. When the iteration raises, the exception leaves the generator
  after the lines already yielded, and no result line is written.
\<close>

definition event_generator :: "turn \<Rightarrow> pystr list \<times> raised option" where
  "event_generator t =
     (case t of
        (events, None) \<Rightarrow>
          (let r = stream_events [] events in (fst r @ [result_line (strip (snd r))], None))
      | (events, Some x) \<Rightarrow> (fst (stream_events [] events), Some x))"

definition chat_stream ::
    "'s services \<Rightarrow> 's \<Rightarrow> chat_request \<Rightarrow> (raised + pystr list \<times> raised option) \<times> 's" where
  "chat_stream svc st request =
     (case resolve_session svc st request of
        (Inl x, st1) \<Rightarrow> (Inl x, st1)
      | (Inr session, st1) \<Rightarrow>
          (case run_async svc st1 (user_id request) (sess_id session) (user_msg request) of
             (t, st2) \<Rightarrow> (Inr (event_generator t), st2)))"

section \<open>The feedback endpoint \<open>POST /feedback\<close>\<close>

text \<open>
  \<open>Feedback\<close>: \<open>score: float\<close> and three optional strings. Nothing in the handler
  looks at the score, so its type is a parameter. The handler logs the dumped record
  at info level and returns a dictionary; it has no access to the framework's state,
  which the model passes through to say so. The log is the list of records logged.
\<close>

record 'f feedback =
  fb_score :: 'f
  fb_text :: "pystr option"
  fb_run_id :: "pystr option"
  fb_user_id :: "pystr option"

definition collect_feedback ::
    "'f feedback \<Rightarrow> 's \<times> 'f feedback list \<Rightarrow> (pystr \<times> pystr) list \<times> ('s \<times> 'f feedback list)" where
  "collect_feedback fb w =
     (case w of (st, logged) \<Rightarrow> ([(str ''status'', str ''success'')], (st, logged @ [fb])))"

section \<open>The aggregation policies in the words of the specification\<close>

text \<open>
  \<open>fromEvent\<close>: the text of every part of the event's content that carries non-empty
  text, in the order of the parts; nothing for an event without content or parts.
\<close>

definition part_fragment :: "part \<Rightarrow> pystr option" where
  "part_fragment p = (case part_text p of None \<Rightarrow> None | Some t \<Rightarrow> if t = [] then None else Some t)"

definition fromEvent :: "event \<Rightarrow> pystr list" where
  "fromEvent e =
     (case content e of
        None \<Rightarrow> []
      | Some c \<Rightarrow> (case parts c of None \<Rightarrow> [] | Some ps \<Rightarrow> List.map_filter part_fragment ps))"

definition turn_fragments :: "event list \<Rightarrow> pystr list" where
  "turn_fragments events = concat (map fromEvent events)"

text \<open>Python's \<open>"\n".join(fragments)\<close>: a newline between neighbours, none at the ends.\<close>

fun join_newline :: "pystr list \<Rightarrow> pystr" where
  "join_newline [] = []"
| "join_newline [f] = f"
| "join_newline (f # g # fs) = f @ [10] @ join_newline (g # fs)"

text \<open>Buffered policy: the fragments joined by newlines, then stripped.\<close>

definition buffered_policy :: "event list \<Rightarrow> pystr" where
  "buffered_policy events = strip (join_newline (turn_fragments events))"

text \<open>
  Streaming policy: a progress record for each event whose author is in the static
  mapping from author name to message text, in the order of the events; then one result
  record with the fragments concatenated without separator and stripped. A record is
  written as the characters of its JSON object and a newline. The message texts are the
  three string literals of orchestrator/app/server.py, lines 90, 92 and 94.
\<close>

definition progress_messages :: "(pystr \<times> pystr) list" where
  "progress_messages =
     [(str ''researcher'', [128269] @ str '' Researcher is gathering information...''),
      (str ''judge'', [9878, 65039] @ str '' Judge is evaluating findings...''),
      (str ''content_builder'', [9997, 65039] @ str '' Content Builder is writing the course...'')]"

definition progress_lines :: "event list \<Rightarrow> pystr list" where
  "progress_lines events =
     map (\<lambda>t. str ''{\"type\": \"progress\", \"text\": '' @ encode_string t @ str ''}'' @ [10])
       (List.map_filter (\<lambda>e. map_of progress_messages (author e)) events)"

definition streaming_policy :: "event list \<Rightarrow> pystr list" where
  "streaming_policy events =
     progress_lines events @
     [str ''{\"type\": \"result\", \"text\": '' @
        encode_string (strip (concat (turn_fragments events))) @ str ''}'' @ [10]]"

text \<open>
  A line is a result record when its \<open>"type"\<close> is \<open>"result"\<close>: the serialisation then
  starts with the seventeen characters \<open>{"type": "result"\<close>. It is a progress record
  when it starts with the nineteen characters \<open>{"type": "progress"\<close>.
\<close>

definition is_result_line :: "pystr \<Rightarrow> bool" where
  "is_result_line l \<longleftrightarrow> take 17 l = str ''{\"type\": \"result\"''"

definition is_progress_line :: "pystr \<Rightarrow> bool" where
  "is_progress_line l \<longleftrightarrow> take 19 l = str ''{\"type\": \"progress\"''"

section \<open>Serving requests one after the other\<close>

text \<open>
  One server process answering a list of requests to \<open>/api/chat\<close> in sequence: each
  handler starts in the state its predecessor left, also when that one raised.
\<close>

fun serve :: "'s services \<Rightarrow> 's \<Rightarrow> chat_request list \<Rightarrow> (raised + chat_response) list \<times> 's" where
  "serve svc st [] = ([], st)"
| "serve svc st (r # rs) =
     (let a = chat svc st r; b = serve svc (snd a) rs in (fst a # fst b, snd b))"

text \<open>
  The same services with a counter of the calls to \<open>create_session\<close> beside the state,
  as a test would wrap the session service to observe creations.
\<close>

definition counting :: "'s services \<Rightarrow> ('s \<times> nat) services" where
  "counting svc =
     \<lparr>app_name = app_name svc,
      get_session = (\<lambda>(st, n) k. case get_session svc st k of (r, st') \<Rightarrow> (r, (st', n))),
      create_session = (\<lambda>(st, n) k. case create_session svc st k of (r, st') \<Rightarrow> (r, (st', Suc n))),
      run_async = (\<lambda>(st, n) u i m. case run_async svc st u i m of (t, st') \<Rightarrow> (t, (st', n)))\<rparr>"

section \<open>The session service the servers instantiate\<close>

text \<open>
  All three servers construct the runner with \<open>session_service=InMemorySessionService()\<close>.
  That class of the framework keeps the sessions in nested dictionaries
  \<open>sessions[app_name][user_id][session_id]\<close>, here one association list under the
  triple, whose first entry for a key is the dictionary's current value.

  \<open>get_session\<close> returns the session stored under exactly the triple it is given, or
  \<open>None\<close>.

  \<open>create_session\<close> raises \<open>AlreadyExistsError\<close> when the given id is non-empty and a
  session is stored under the given triple. Otherwise the id of the new session is the
  given id stripped of whitespace, if that is non-empty, and a new \<open>uuid.uuid4()\<close>
  otherwise; the session is stored under that id and returned.

  The random identifier is modelled by a counter: \<open>uuid4 n\<close> is the n-th identifier
  drawn, and different draws give different identifiers.
\<close>

record memory =
  sessions :: "(triple \<times> session) list"
  uuids :: nat

definition empty_memory :: memory where
  "empty_memory = \<lparr>sessions = [], uuids = 0\<rparr>"

definition uuid4 :: "nat \<Rightarrow> pystr" where
  "uuid4 n = str ''uuid4-'' @ replicate n 49"

definition in_memory_get :: "memory \<Rightarrow> triple \<Rightarrow> (raised + session option) \<times> memory" where
  "in_memory_get st k = (Inr (map_of (sessions st) k), st)"

definition in_memory_create :: "memory \<Rightarrow> triple \<Rightarrow> (raised + session) \<times> memory" where
  "in_memory_create st k =
     (case k of (a, u, i) \<Rightarrow>
        if i \<noteq> [] \<and> map_of (sessions st) (a, u, i) \<noteq> None
        then (Inl (Exception (str ''AlreadyExistsError'')), st)
        else if i \<noteq> [] \<and> strip i \<noteq> []
        then (Inr \<lparr>sess_app_name = a, sess_user_id = u, sess_id = strip i\<rparr>,
              st\<lparr>sessions :=
                   ((a, u, strip i), \<lparr>sess_app_name = a, sess_user_id = u, sess_id = strip i\<rparr>)
                   # sessions st\<rparr>)
        else (Inr \<lparr>sess_app_name = a, sess_user_id = u, sess_id = uuid4 (uuids st)\<rparr>,
              st\<lparr>sessions :=
                   ((a, u, uuid4 (uuids st)),
                    \<lparr>sess_app_name = a, sess_user_id = u, sess_id = uuid4 (uuids st)\<rparr>)
                   # sessions st,
                 uuids := Suc (uuids st)\<rparr>))"

text \<open>
  The services of one server: the in-memory session service and a runner. The runner
  is the framework's; what it yields for a call is a parameter. It appends the events
  of the turn to the session, which a session of this model does not record, and it
  neither creates nor removes a session.
\<close>

definition in_memory_services ::
    "pystr \<Rightarrow> (memory \<Rightarrow> pystr \<Rightarrow> pystr \<Rightarrow> content \<Rightarrow> turn) \<Rightarrow> memory services" where
  "in_memory_services name runner =
     \<lparr>app_name = name, get_session = in_memory_get, create_session = in_memory_create,
      run_async = (\<lambda>st u i m. (runner st u i m, st))\<rparr>"

text \<open>A runner that yields the same turn for every call.\<close>

definition replay :: "turn \<Rightarrow> memory \<Rightarrow> pystr \<Rightarrow> pystr \<Rightarrow> content \<Rightarrow> turn" where
  "replay t st u i m = t"

text \<open>An event with the given author and text parts, and one without content.\<close>

definition text_event :: "pystr \<Rightarrow> pystr list \<Rightarrow> event" where
  "text_event a ts =
     \<lparr>author = a, content = Some \<lparr>role = Some (str ''model''), parts = Some (map (\<lambda>t. \<lparr>part_text = Some t\<rparr>) ts)\<rparr>\<rparr>"

definition bare_event :: "pystr \<Rightarrow> event" where
  "bare_event a = \<lparr>author = a, content = None\<rparr>"




section \<open>Evaluation of literals and of the in-memory services\<close>

lemma str_simps:
  "str [] = []" "str (c # cs) = of_char c # str cs"
  by (simp_all add: str_def)

lemma in_memory_run: "run_async (in_memory_services name (replay t)) st u i m = (t, st)"
  by (simp add: in_memory_services_def replay_def)

lemma in_memory_resolve_fresh:
  assumes "i \<noteq> []" and "strip i = i"
  shows "resolve_session (in_memory_services name runner) empty_memory
           \<lparr>message = m, user_id = u, session_id = i\<rparr> =
         (Inr \<lparr>sess_app_name = name, sess_user_id = u, sess_id = i\<rparr>,
          \<lparr>sessions = [((name, u, i), \<lparr>sess_app_name = name, sess_user_id = u, sess_id = i\<rparr>)],
           uuids = 0\<rparr>)"
  using assms
  by (simp add: resolve_session_def in_memory_services_def in_memory_get_def
      in_memory_create_def empty_memory_def)

lemma strip_test_session: "strip (str ''test_session'') = str ''test_session''"
  by (simp add: strip_def str_simps isspace_def)

lemma strip_s: "strip (str ''s'') = str ''s''"
  by (simp add: strip_def str_simps isspace_def)

section \<open>Stripping\<close>

lemma isspace_newline: "isspace 10"
  by (simp add: isspace_def)

lemma strip_Nil: "strip [] = []"
  by (simp add: strip_def)

lemma strip_snoc_space:
  assumes "isspace w"
  shows "strip (s @ [w]) = strip s"
proof (cases "\<forall>c \<in> set s. isspace c")
  case True
  then have h1: "dropWhile isspace s = []"
    by (simp add: dropWhile_eq_Nil_conv)
  from True assms have h2: "dropWhile isspace (s @ [w]) = []"
    by (simp add: dropWhile_eq_Nil_conv)
  show ?thesis unfolding strip_def h1 h2 by simp
next
  case False
  then obtain c where "c \<in> set s" "\<not> isspace c" by blast
  then have "dropWhile isspace (s @ [w]) = dropWhile isspace s @ [w]"
    by (rule dropWhile_append1)
  then show ?thesis using assms by (simp add: strip_def)
qed

section \<open>The buffered loop computes the buffered policy\<close>

lemma chat_parts_append:
  "chat_parts final_text ps =
     final_text @ concat (map (\<lambda>t. t @ [10]) (List.map_filter part_fragment ps))"
  by (induction ps arbitrary: final_text)
     (simp_all add: List.map_filter_simps part_fragment_def split: option.split)

lemma chat_events_append:
  "chat_events final_text es = final_text @ concat (map (\<lambda>t. t @ [10]) (turn_fragments es))"
proof (induction es arbitrary: final_text)
  case Nil
  show ?case by (simp add: turn_fragments_def)
next
  case (Cons e es)
  show ?case
    by (simp add: Cons.IH turn_fragments_def fromEvent_def chat_parts_append split: option.split)
qed

lemma terminated_join:
  "fs \<noteq> [] \<Longrightarrow> concat (map (\<lambda>t. t @ [10]) fs) = join_newline fs @ [10]"
  by (induction fs rule: join_newline.induct) simp_all

lemma chat_body_policy: "response (chat_body events) = buffered_policy events"
proof (cases "turn_fragments events = []")
  case True
  then show ?thesis
    by (simp add: chat_body_def buffered_policy_def chat_events_append)
next
  case False
  then show ?thesis
    by (simp add: chat_body_def buffered_policy_def chat_events_append terminated_join
        strip_snoc_space isspace_newline)
qed

text \<open>
  C1. When the session resolves and the runner's turn completes with the events
  \<open>events\<close>, \<open>/api/chat\<close> returns the body whose \<open>response\<close> is the non-empty text
  parts of all events, in event order and part order, joined by newlines and then
  stripped of leading and trailing whitespace.
\<close>

theorem chat_returns_buffered_policy:
  assumes "resolve_session svc st request = (Inr session, st1)"
    and "run_async svc st1 (user_id request) (sess_id session) (user_msg request) = ((events, None), st2)"
  shows "chat svc st request =
           (Inr \<lparr>response = strip (join_newline (turn_fragments events))\<rparr>, st2)"
proof -
  have "chat_body events = \<lparr>response = strip (join_newline (turn_fragments events))\<rparr>"
    using chat_body_policy [of events] by (simp add: chat_body_def buffered_policy_def)
  with assms show ?thesis by (simp add: chat_def)
qed

text \<open>
  The example of the specification: the text parts \<open>"Hello, "\<close> and \<open>"world"\<close> give
  the body \<open>{"response": "Hello, \nworld"}\<close>.
\<close>

theorem chat_hello_world:
  "chat (in_memory_services (str ''judge'')
          (replay ([text_event (str ''judge'') [str ''Hello, '', str ''world'']], None)))
        empty_memory
        \<lparr>message = str ''hi'', user_id = str ''test_user'', session_id = str ''test_session''\<rparr> =
     (Inr \<lparr>response = str ''Hello, '' @ [10] @ str ''world''\<rparr>,
      \<lparr>sessions =
         [((str ''judge'', str ''test_user'', str ''test_session''),
           \<lparr>sess_app_name = str ''judge'', sess_user_id = str ''test_user'',
              sess_id = str ''test_session''\<rparr>)],
       uuids = 0\<rparr>)"
proof -
  have ne: "str ''test_session'' \<noteq> []"
    by (simp add: str_simps)
  have "strip (join_newline (turn_fragments [text_event (str ''judge'') [str ''Hello, '', str ''world'']]))
      = str ''Hello, '' @ [10] @ str ''world''"
    by (simp add: turn_fragments_def fromEvent_def text_event_def List.map_filter_simps
        part_fragment_def str_simps strip_def isspace_def)
  then show ?thesis
    using chat_returns_buffered_policy
      [OF in_memory_resolve_fresh [OF ne strip_test_session] in_memory_run]
    by simp
qed

section \<open>The streaming loop computes the streaming policy\<close>

lemma stream_parts_append:
  "stream_parts final_text ps = final_text @ concat (List.map_filter part_fragment ps)"
  by (induction ps arbitrary: final_text)
     (simp_all add: List.map_filter_simps part_fragment_def split: option.split)

lemma stream_events_eq:
  "stream_events final_text es =
     (concat (map progress_update es), final_text @ concat (turn_fragments es))"
proof (induction es arbitrary: final_text)
  case Nil
  show ?case by (simp add: turn_fragments_def)
next
  case (Cons e es)
  show ?case
    by (simp add: Cons.IH turn_fragments_def fromEvent_def stream_parts_append Let_def
        split: option.split)
qed

lemma event_generator_completed:
  "event_generator (events, None) =
     (concat (map progress_update events) @ [result_line (strip (concat (turn_fragments events)))], None)"
  by (simp add: event_generator_def stream_events_eq)

section \<open>The serialised lines\<close>

lemma progress_line_text:
  "progress_line t = str ''{\"type\": \"progress\", \"text\": '' @ encode_string t @ str ''}'' @ [10]"
  by (simp add: progress_line_def json_dumps_def str_simps encode_string_def escape_char_def)

lemma result_line_text:
  "result_line t = str ''{\"type\": \"result\", \"text\": '' @ encode_string t @ str ''}'' @ [10]"
  by (simp add: result_line_def json_dumps_def str_simps encode_string_def escape_char_def)

lemma progress_update_table:
  "progress_update e =
     map (\<lambda>t. str ''{\"type\": \"progress\", \"text\": '' @ encode_string t @ str ''}'' @ [10])
       (case map_of progress_messages (author e) of None \<Rightarrow> [] | Some t \<Rightarrow> [t])"
  by (simp add: progress_update_def progress_messages_def progress_line_text
      researcher_text_def judge_text_def content_builder_text_def)

lemma concat_progress_updates:
  "concat (map progress_update es) = progress_lines es"
  unfolding progress_lines_def
  by (induction es) (simp_all add: List.map_filter_simps progress_update_table split: option.split)

lemma event_generator_policy:
  "event_generator (events, None) = (streaming_policy events, None)"
  by (simp add: event_generator_completed streaming_policy_def concat_progress_updates
      result_line_text)

lemma is_result_line_progress:
  "\<not> is_result_line (str ''{\"type\": \"progress\", \"text\": '' @ x)"
  by (simp add: is_result_line_def str_simps)

lemma is_result_line_result:
  "is_result_line (str ''{\"type\": \"result\", \"text\": '' @ x)"
  by (simp add: is_result_line_def str_simps)

lemma is_progress_line_progress:
  "is_progress_line (str ''{\"type\": \"progress\", \"text\": '' @ x)"
  by (simp add: is_progress_line_def str_simps)

lemma is_progress_line_result:
  "\<not> is_progress_line (str ''{\"type\": \"result\", \"text\": '' @ x)"
  by (simp add: is_progress_line_def str_simps)

lemma no_result_in_progress: "filter is_result_line (progress_lines es) = []"
  by (simp add: progress_lines_def filter_map comp_def is_result_line_progress
      del: append_assoc)

lemma all_progress_in_progress: "filter is_progress_line (progress_lines es) = progress_lines es"
  by (simp add: progress_lines_def filter_map comp_def is_progress_line_progress
      del: append_assoc)

text \<open>Text without quote, backslash, control or non-ASCII character is written as it is.\<close>

lemma escape_plain:
  "32 \<le> c \<and> c \<le> 126 \<and> c \<noteq> 34 \<and> c \<noteq> 92 \<Longrightarrow> escape_char c = [c]"
  by (simp add: escape_char_def)

lemma encode_plain:
  "\<forall>c \<in> set t. 32 \<le> c \<and> c \<le> 126 \<and> c \<noteq> 34 \<and> c \<noteq> 92 \<Longrightarrow>
   encode_string t = [34] @ t @ [34]"
proof -
  assume "\<forall>c \<in> set t. 32 \<le> c \<and> c \<le> 126 \<and> c \<noteq> 34 \<and> c \<noteq> 92"
  then have "concat (map escape_char t) = t"
    by (induction t) (simp_all add: escape_plain)
  then show ?thesis by (simp add: encode_string_def)
qed

text \<open>The three progress lines, character by character.\<close>

lemma researcher_line:
  "str ''{\"type\": \"progress\", \"text\": '' @
     encode_string ([128269] @ str '' Researcher is gathering information...'') @ str ''}'' @ [10] =
   str ''{\"type\": \"progress\", \"text\": \"'' @ [92] @ str ''ud83d'' @ [92] @
     str ''udd0d Researcher is gathering information...\"}'' @ [10]"
proof -
  have "escape_char 128269 = [92] @ str ''ud83d'' @ [92] @ str ''udd0d''"
    by (simp add: escape_char_def hex4_def hex_digit_def Let_def str_simps)
  moreover have "concat (map escape_char (str '' Researcher is gathering information...'')) =
      str '' Researcher is gathering information...''"
    by (simp add: str_simps escape_plain)
  ultimately show ?thesis
    by (simp add: encode_string_def str_simps)
qed

lemma judge_line:
  "str ''{\"type\": \"progress\", \"text\": '' @
     encode_string ([9878, 65039] @ str '' Judge is evaluating findings...'') @ str ''}'' @ [10] =
   str ''{\"type\": \"progress\", \"text\": \"'' @ [92] @ str ''u2696'' @ [92] @
     str ''ufe0f Judge is evaluating findings...\"}'' @ [10]"
proof -
  have "escape_char 9878 = [92] @ str ''u2696''" "escape_char 65039 = [92] @ str ''ufe0f''"
    by (simp_all add: escape_char_def hex4_def hex_digit_def Let_def str_simps)
  moreover have "concat (map escape_char (str '' Judge is evaluating findings...'')) =
      str '' Judge is evaluating findings...''"
    by (simp add: str_simps escape_plain)
  ultimately show ?thesis
    by (simp add: encode_string_def str_simps)
qed

lemma content_builder_line:
  "str ''{\"type\": \"progress\", \"text\": '' @
     encode_string ([9997, 65039] @ str '' Content Builder is writing the course...'') @ str ''}'' @ [10] =
   str ''{\"type\": \"progress\", \"text\": \"'' @ [92] @ str ''u270d'' @ [92] @
     str ''ufe0f Content Builder is writing the course...\"}'' @ [10]"
proof -
  have "escape_char 9997 = [92] @ str ''u270d''" "escape_char 65039 = [92] @ str ''ufe0f''"
    by (simp_all add: escape_char_def hex4_def hex_digit_def Let_def str_simps)
  moreover have "concat (map escape_char (str '' Content Builder is writing the course...'')) =
      str '' Content Builder is writing the course...''"
    by (simp add: str_simps escape_plain)
  ultimately show ?thesis
    by (simp add: encode_string_def str_simps)
qed

text \<open>
  Every chunk the generator yields is one serialised record followed by the only
  newline in it, so a chunk is a line of the response.
\<close>

lemma hex_digit_ge: "48 \<le> hex_digit d"
  by (simp add: hex_digit_def)

lemma hex4_no_newline: "10 \<notin> set (hex4 n)"
  using hex_digit_ge [of "n div 4096 mod 16"] hex_digit_ge [of "n div 256 mod 16"]
        hex_digit_ge [of "n div 16 mod 16"] hex_digit_ge [of "n mod 16"]
  unfolding hex4_def by auto

lemma escape_char_no_newline: "10 \<notin> set (escape_char c)"
  unfolding escape_char_def Let_def
  by (simp add: hex4_no_newline)

lemma encode_string_no_newline: "10 \<notin> set (encode_string s)"
  by (simp add: encode_string_def escape_char_no_newline)

lemma json_dumps_no_newline: "10 \<notin> set (json_dumps d)"
  by (simp add: json_dumps_def str_simps encode_string_no_newline)

lemma progress_update_lines:
  "l \<in> set (progress_update e) \<Longrightarrow> \<exists>d. l = json_dumps d @ [10]"
  unfolding progress_update_def progress_line_def
  by (cases "author e = str ''researcher''"; cases "author e = str ''judge''";
      cases "author e = str ''content_builder''") auto

lemma progress_updates_lines:
  "l \<in> set (concat (map progress_update es)) \<Longrightarrow> \<exists>d. l = json_dumps d @ [10]"
  using progress_update_lines by auto

lemma yielded_chunk_is_one_line:
  assumes "l \<in> set (fst (event_generator t))"
  shows "\<exists>d. l = json_dumps d @ [10] \<and> 10 \<notin> set (json_dumps d)"
proof -
  obtain es x where t: "t = (es, x)" by (cases t)
  have "\<exists>d. l = json_dumps d @ [10]"
  proof (cases x)
    case None
    with assms t have "l \<in> set (concat (map progress_update es)) \<or>
        l = result_line (strip (concat (turn_fragments es)))"
      by (auto simp: event_generator_completed)
    then show ?thesis
    proof
      assume "l \<in> set (concat (map progress_update es))"
      then show ?thesis by (rule progress_updates_lines)
    next
      assume "l = result_line (strip (concat (turn_fragments es)))"
      then show ?thesis unfolding result_line_def by blast
    qed
  next
    case (Some y)
    with assms t have "l \<in> set (concat (map progress_update es))"
      by (simp add: event_generator_def stream_events_eq)
    then show ?thesis by (rule progress_updates_lines)
  qed
  then show ?thesis using json_dumps_no_newline by blast
qed

section \<open>What stripping leaves\<close>

lemma strip_decompose:
  "\<exists>pre post. s = pre @ strip s @ post \<and> (\<forall>c \<in> set pre. isspace c) \<and> (\<forall>c \<in> set post. isspace c)"
proof -
  let ?d = "dropWhile isspace s"
  have "s = takeWhile isspace s @ ?d" by simp
  moreover have "rev ?d = takeWhile isspace (rev ?d) @ dropWhile isspace (rev ?d)" by simp
  then have "?d = rev (dropWhile isspace (rev ?d)) @ rev (takeWhile isspace (rev ?d))"
    by (metis rev_append rev_rev_ident)
  ultimately have "s = takeWhile isspace s @ strip s @ rev (takeWhile isspace (rev ?d))"
    by (simp add: strip_def)
  moreover have "\<forall>c \<in> set (takeWhile isspace s). isspace c"
    by (auto dest: set_takeWhileD)
  moreover have "\<forall>c \<in> set (rev (takeWhile isspace (rev ?d))). isspace c"
    by (auto dest: set_takeWhileD)
  ultimately show ?thesis by blast
qed

lemma strip_ends:
  assumes "strip s \<noteq> []"
  shows "\<not> isspace (hd (strip s)) \<and> \<not> isspace (last (strip s))"
proof -
  let ?d = "dropWhile isspace s"
  let ?r = "dropWhile isspace (rev ?d)"
  from assms have r: "?r \<noteq> []" by (simp add: strip_def)
  then have "\<not> isspace (hd ?r)" by (rule hd_dropWhile)
  then have l: "\<not> isspace (last (strip s))"
    using r by (simp add: strip_def last_rev)
  have d: "?d \<noteq> []"
  proof
    assume e: "?d = []"
    have "?r = []" unfolding e by simp
    with r show False by simp
  qed
  then have hd: "\<not> isspace (hd ?d)" by (rule hd_dropWhile)
  have "?d = strip s @ rev (takeWhile isspace (rev ?d))"
    by (metis strip_def rev_append rev_rev_ident takeWhile_dropWhile_id)
  with assms have "hd ?d = hd (strip s)"
    by (metis hd_append2)
  with hd l show ?thesis by simp
qed

section \<open>The result record\<close>

text \<open>
  C2. When the session resolves and the runner's turn completes, the stream of
  \<open>/api/chat_stream\<close> is the streaming policy's. Exactly one of its lines is a result
  record; it is the last line; it reads \<open>{"type": "result", "text": T}\<close> and a
  newline, T being the JSON string of the non-empty text parts of all events
  concatenated without separator and stripped; no line before it is a result record.
  Stripped means: the concatenation is whitespace, then the text, then whitespace, and
  the text neither starts nor ends with whitespace. When the text has only printable
  ASCII characters other than the double quote and the backslash, T is the text between
  double quotes.
\<close>

theorem stream_emits_one_result_last:
  assumes "resolve_session svc st request = (Inr session, st1)"
    and "run_async svc st1 (user_id request) (sess_id session) (user_msg request) = ((events, None), st2)"
  shows "chat_stream svc st request = (Inr (streaming_policy events, None), st2) \<and>
         filter is_result_line (streaming_policy events) =
           [str ''{\"type\": \"result\", \"text\": '' @
              encode_string (strip (concat (turn_fragments events))) @ str ''}'' @ [10]] \<and>
         last (streaming_policy events) =
           str ''{\"type\": \"result\", \"text\": '' @
              encode_string (strip (concat (turn_fragments events))) @ str ''}'' @ [10] \<and>
         filter is_result_line (butlast (streaming_policy events)) = [] \<and>
         (\<exists>pre post.
            concat (turn_fragments events) = pre @ strip (concat (turn_fragments events)) @ post \<and>
            (\<forall>c \<in> set pre. isspace c) \<and> (\<forall>c \<in> set post. isspace c)) \<and>
         (strip (concat (turn_fragments events)) \<noteq> [] \<longrightarrow>
            \<not> isspace (hd (strip (concat (turn_fragments events)))) \<and>
            \<not> isspace (last (strip (concat (turn_fragments events))))) \<and>
         ((\<forall>c \<in> set (strip (concat (turn_fragments events))).
              32 \<le> c \<and> c \<le> 126 \<and> c \<noteq> 34 \<and> c \<noteq> 92) \<longrightarrow>
            last (streaming_policy events) =
              str ''{\"type\": \"result\", \"text\": \"'' @
                strip (concat (turn_fragments events)) @ str ''\"}'' @ [10])"
proof -
  let ?T = "strip (concat (turn_fragments events))"
  let ?R = "str ''{\"type\": \"result\", \"text\": '' @ encode_string ?T @ str ''}'' @ [10]"
  have gen: "event_generator (events, None) = (streaming_policy events, None)"
    by (rule event_generator_policy)
  have shape: "streaming_policy events = progress_lines events @ [?R]"
    by (simp add: streaming_policy_def)
  have c1: "chat_stream svc st request = (Inr (streaming_policy events, None), st2)"
    using assms gen by (simp add: chat_stream_def)
  have r: "is_result_line ?R"
    by (rule is_result_line_result)
  have c2: "filter is_result_line (streaming_policy events) = [?R]"
    unfolding shape using r by (simp add: no_result_in_progress del: append_assoc)
  have c3: "last (streaming_policy events) = ?R"
    unfolding shape by simp
  have c4: "filter is_result_line (butlast (streaming_policy events)) = []"
    unfolding shape by (simp add: butlast_append no_result_in_progress del: append_assoc)
  have c5: "\<exists>pre post. concat (turn_fragments events) = pre @ ?T @ post \<and>
            (\<forall>c \<in> set pre. isspace c) \<and> (\<forall>c \<in> set post. isspace c)"
    by (rule strip_decompose)
  have c6: "?T \<noteq> [] \<longrightarrow> \<not> isspace (hd ?T) \<and> \<not> isspace (last ?T)"
    using strip_ends by blast
  have c7: "(\<forall>c \<in> set ?T. 32 \<le> c \<and> c \<le> 126 \<and> c \<noteq> 34 \<and> c \<noteq> 92) \<longrightarrow>
      last (streaming_policy events) =
        str ''{\"type\": \"result\", \"text\": \"'' @ ?T @ str ''\"}'' @ [10]"
  proof
    assume "\<forall>c \<in> set ?T. 32 \<le> c \<and> c \<le> 126 \<and> c \<noteq> 34 \<and> c \<noteq> 92"
    then have "encode_string ?T = [34] @ ?T @ [34]" by (rule encode_plain)
    then show "last (streaming_policy events) =
        str ''{\"type\": \"result\", \"text\": \"'' @ ?T @ str ''\"}'' @ [10]"
      unfolding c3 by (simp add: str_simps)
  qed
  from c1 c2 c3 c4 c5 c6 c7 show ?thesis by blast
qed

text \<open>
  Two events carrying \<open>" Do"\<close> and \<open>"ne "\<close>: one progress line for the known author,
  then the single result line, whose text is \<open>"Done"\<close>.
\<close>

theorem stream_hello_world:
  "chat_stream (in_memory_services (str ''orchestrator'')
       (replay ([text_event (str ''content_builder'') [str '' Do''],
                 text_event (str ''editor'') [str ''ne '']], None)))
       empty_memory
       \<lparr>message = str ''hi'', user_id = str ''test_user'', session_id = str ''test_session''\<rparr> =
     (Inr ([str ''{\"type\": \"progress\", \"text\": \"'' @ [92] @ str ''u270d'' @ [92] @
              str ''ufe0f Content Builder is writing the course...\"}'' @ [10],
            str ''{\"type\": \"result\", \"text\": \"Done\"}'' @ [10]], None),
      \<lparr>sessions =
         [((str ''orchestrator'', str ''test_user'', str ''test_session''),
           \<lparr>sess_app_name = str ''orchestrator'', sess_user_id = str ''test_user'',
              sess_id = str ''test_session''\<rparr>)],
       uuids = 0\<rparr>)"
proof -
  have ne: "str ''test_session'' \<noteq> []"
    by (simp add: str_simps)
  have "streaming_policy [text_event (str ''content_builder'') [str '' Do''],
                          text_event (str ''editor'') [str ''ne '']] =
        [str ''{\"type\": \"progress\", \"text\": \"'' @ [92] @ str ''u270d'' @ [92] @
              str ''ufe0f Content Builder is writing the course...\"}'' @ [10],
         str ''{\"type\": \"result\", \"text\": \"Done\"}'' @ [10]]"
    by (simp add: streaming_policy_def progress_lines_def turn_fragments_def fromEvent_def text_event_def
        List.map_filter_simps part_fragment_def progress_messages_def str_simps
        strip_def isspace_def encode_string_def escape_char_def hex4_def hex_digit_def)
  then show ?thesis
    using stream_emits_one_result_last
      [OF in_memory_resolve_fresh [OF ne strip_test_session] in_memory_run]
    by simp
qed

section \<open>Order of the streamed lines\<close>

lemma progress_lines_append: "progress_lines (es1 @ es2) = progress_lines es1 @ progress_lines es2"
  by (induction es1) (simp_all add: progress_lines_def List.map_filter_simps split: option.split)

lemma progress_lines_single:
  "progress_lines [e] =
     (if author e = str ''researcher'' then
        [str ''{\"type\": \"progress\", \"text\": \"'' @ [92] @ str ''ud83d'' @ [92] @
       str ''udd0d Researcher is gathering information...\"}'' @ [10]]
      else if author e = str ''judge'' then
        [str ''{\"type\": \"progress\", \"text\": \"'' @ [92] @ str ''u2696'' @ [92] @
       str ''ufe0f Judge is evaluating findings...\"}'' @ [10]]
      else if author e = str ''content_builder'' then
        [str ''{\"type\": \"progress\", \"text\": \"'' @ [92] @ str ''u270d'' @ [92] @
       str ''ufe0f Content Builder is writing the course...\"}'' @ [10]]
      else [])"
proof -
  have "progress_lines [e] = progress_update e"
    using concat_progress_updates [of "[e]"] by simp
  then show ?thesis
    using researcher_line judge_line content_builder_line
    by (simp add: progress_update_def progress_line_text researcher_text_def judge_text_def
        content_builder_text_def)
qed



section \<open>Which parts contribute text\<close>

lemma fromEvent_parts:
  "List.map_filter part_fragment ps =
     map the (filter (\<lambda>t. t \<noteq> None \<and> t \<noteq> Some []) (map part_text ps))"
  by (induction ps) (auto simp: List.map_filter_simps part_fragment_def split: option.split)

text \<open>
  C6. Both loops add to \<open>final_text\<close> exactly the fragments of \<open>fromEvent\<close>, event by
  event and part by part (each followed by a newline in the buffered loop). An event
  without content, or whose parts are absent or empty, has no fragment; otherwise its
  fragments are the texts of its parts that are neither absent nor empty, in the order
  of the parts.
\<close>

theorem only_nonempty_text_contributes:
  "chat_events ft es = ft @ concat (map (\<lambda>t. t @ [10]) (concat (map fromEvent es))) \<and>
   snd (stream_events ft es) = ft @ concat (concat (map fromEvent es)) \<and>
   (content e = None \<longrightarrow> fromEvent e = []) \<and>
   (content e = Some c \<and> (parts c = None \<or> parts c = Some []) \<longrightarrow> fromEvent e = []) \<and>
   (content e = Some c \<and> parts c = Some ps \<longrightarrow>
      fromEvent e = map the (filter (\<lambda>t. t \<noteq> None \<and> t \<noteq> Some []) (map part_text ps)))"
proof -
  have "chat_events ft es = ft @ concat (map (\<lambda>t. t @ [10]) (concat (map fromEvent es)))"
    using chat_events_append [of ft es] by (simp add: turn_fragments_def)
  moreover have "snd (stream_events ft es) = ft @ concat (concat (map fromEvent es))"
    by (simp add: stream_events_eq turn_fragments_def)
  moreover have "content e = None \<longrightarrow> fromEvent e = []"
    by (simp add: fromEvent_def)
  moreover have "content e = Some c \<and> (parts c = None \<or> parts c = Some []) \<longrightarrow> fromEvent e = []"
    by (auto simp: fromEvent_def List.map_filter_simps)
  moreover have "content e = Some c \<and> parts c = Some ps \<longrightarrow>
      fromEvent e = map the (filter (\<lambda>t. t \<noteq> None \<and> t \<noteq> Some []) (map part_text ps))"
    by (simp add: fromEvent_def fromEvent_parts)
  ultimately show ?thesis by blast
qed

text \<open>
  Four events: no content, parts absent, parts empty, and one with the part texts
  \<open>None\<close>, \<open>""\<close>, \<open>"a"\<close>, \<open>"b"\<close>.
\<close>

theorem mixed_parts_example:
  "chat_events []
     [bare_event (str ''x''),
      \<lparr>author = str ''x'', content = Some \<lparr>role = None, parts = None\<rparr>\<rparr>,
      \<lparr>author = str ''x'', content = Some \<lparr>role = None, parts = Some []\<rparr>\<rparr>,
      \<lparr>author = str ''x'', content = Some \<lparr>role = None, parts = Some
         [\<lparr>part_text = None\<rparr>, \<lparr>part_text = Some []\<rparr>,
          \<lparr>part_text = Some (str ''a'')\<rparr>, \<lparr>part_text = Some (str ''b'')\<rparr>]\<rparr>\<rparr>]
     = str ''a'' @ [10] @ str ''b'' @ [10] \<and>
   snd (stream_events []
     [bare_event (str ''x''),
      \<lparr>author = str ''x'', content = Some \<lparr>role = None, parts = None\<rparr>\<rparr>,
      \<lparr>author = str ''x'', content = Some \<lparr>role = None, parts = Some []\<rparr>\<rparr>,
      \<lparr>author = str ''x'', content = Some \<lparr>role = None, parts = Some
         [\<lparr>part_text = None\<rparr>, \<lparr>part_text = Some []\<rparr>,
          \<lparr>part_text = Some (str ''a'')\<rparr>, \<lparr>part_text = Some (str ''b'')\<rparr>]\<rparr>\<rparr>])
     = str ''ab'' \<and>
   fromEvent (bare_event (str ''x'')) = [] \<and>
   fromEvent \<lparr>author = str ''x'', content = Some \<lparr>role = None, parts = None\<rparr>\<rparr> = [] \<and>
   fromEvent \<lparr>author = str ''x'', content = Some \<lparr>role = None, parts = Some []\<rparr>\<rparr> = [] \<and>
   fromEvent \<lparr>author = str ''x'', content = Some \<lparr>role = None, parts = Some
         [\<lparr>part_text = None\<rparr>, \<lparr>part_text = Some []\<rparr>,
          \<lparr>part_text = Some (str ''a'')\<rparr>, \<lparr>part_text = Some (str ''b'')\<rparr>]\<rparr>\<rparr>
     = [str ''a'', str ''b'']"
proof -
  let ?e1 = "bare_event (str ''x'')"
  let ?c2 = "\<lparr>role = None, parts = None\<rparr>"
  let ?c3 = "\<lparr>role = None, parts = Some []\<rparr>"
  let ?ps = "[\<lparr>part_text = None\<rparr>, \<lparr>part_text = Some []\<rparr>,
          \<lparr>part_text = Some (str ''a'')\<rparr>, \<lparr>part_text = Some (str ''b'')\<rparr>]"
  let ?c4 = "\<lparr>role = None, parts = Some ?ps\<rparr>"
  let ?es = "[?e1, \<lparr>author = str ''x'', content = Some ?c2\<rparr>,
              \<lparr>author = str ''x'', content = Some ?c3\<rparr>, \<lparr>author = str ''x'', content = Some ?c4\<rparr>]"
  have f1: "fromEvent ?e1 = []"
    using only_nonempty_text_contributes [of "[]" ?es ?e1] by (simp add: bare_event_def)
  have f2: "fromEvent \<lparr>author = str ''x'', content = Some ?c2\<rparr> = []"
    using only_nonempty_text_contributes [of "[]" ?es "\<lparr>author = str ''x'', content = Some ?c2\<rparr>" ?c2]
    by simp
  have f3: "fromEvent \<lparr>author = str ''x'', content = Some ?c3\<rparr> = []"
    using only_nonempty_text_contributes [of "[]" ?es "\<lparr>author = str ''x'', content = Some ?c3\<rparr>" ?c3]
    by simp
  have f4: "fromEvent \<lparr>author = str ''x'', content = Some ?c4\<rparr> = [str ''a'', str ''b'']"
    using only_nonempty_text_contributes [of "[]" ?es "\<lparr>author = str ''x'', content = Some ?c4\<rparr>" ?c4 ?ps]
    by (simp add: str_simps)
  show ?thesis
    using only_nonempty_text_contributes [of "[]" ?es ?e1] f1 f2 f3 f4
    by (simp add: str_simps)
qed

section \<open>Authors outside the three\<close>

text \<open>
  C7. An event whose author is none of \<open>researcher\<close>, \<open>judge\<close>, \<open>content_builder\<close>
  yields no progress line. Its fragments, the texts of its parts that are neither absent
  nor empty, are appended to the buffer at the event's place among the fragments of the
  other events, and the stream ends with the line \<open>{"type": "result", "text": T}\<close>
  where T is the JSON string of that buffer, stripped.
\<close>

theorem unknown_author_text_still_counts:
  assumes "author e \<notin> {str ''researcher'', str ''judge'', str ''content_builder''}"
  shows "progress_update e = [] \<and>
         progress_lines [e] = [] \<and>
         snd (stream_events ft (es1 @ e # es2)) =
           ft @ concat (turn_fragments es1) @ concat (fromEvent e) @ concat (turn_fragments es2) \<and>
         event_generator (es1 @ e # es2, None) =
           (progress_lines es1 @ progress_lines es2 @
            [str ''{\"type\": \"result\", \"text\": '' @ encode_string (strip (concat (turn_fragments es1) @ concat (fromEvent e) @
                 concat (turn_fragments es2))) @ str ''}'' @ [10]], None) \<and>
         (content e = Some c \<and> parts c = Some ps \<longrightarrow>
            fromEvent e = map the (filter (\<lambda>t. t \<noteq> None \<and> t \<noteq> Some []) (map part_text ps)))"
proof -
  from assms have p: "progress_update e = []"
    by (simp add: progress_update_def)
  then have q: "progress_lines [e] = []"
    using concat_progress_updates [of "[e]"] by simp
  have "progress_lines (es1 @ [e] @ es2) = progress_lines es1 @ progress_lines es2"
    by (simp only: progress_lines_append q append_Nil)
  then have g: "event_generator (es1 @ e # es2, None) =
           (progress_lines es1 @ progress_lines es2 @
            [str ''{\"type\": \"result\", \"text\": '' @ encode_string (strip (concat (turn_fragments es1) @ concat (fromEvent e) @
                 concat (turn_fragments es2))) @ str ''}'' @ [10]], None)"
    using event_generator_policy [of "es1 @ e # es2"]
    by (simp add: streaming_policy_def turn_fragments_def)
  have b: "snd (stream_events ft (es1 @ e # es2)) =
           ft @ concat (turn_fragments es1) @ concat (fromEvent e) @ concat (turn_fragments es2)"
    by (simp add: stream_events_eq turn_fragments_def)
  have f: "content e = Some c \<and> parts c = Some ps \<longrightarrow>
            fromEvent e = map the (filter (\<lambda>t. t \<noteq> None \<and> t \<noteq> Some []) (map part_text ps))"
    by (simp add: fromEvent_def fromEvent_parts)
  from p q b g f show ?thesis by blast
qed

text \<open>
  An event of the author \<open>planner\<close> with the text \<open>"Done"\<close>, after a bare event of the
  judge: one progress line, for the judge, and the result line with \<open>"Done"\<close>.
\<close>

theorem unknown_author_example:
  "progress_update (text_event (str ''planner'') [str ''Done'']) = [] \<and>
   snd (stream_events [] [bare_event (str ''judge''), text_event (str ''planner'') [str ''Done'']]) =
     str ''Done'' \<and>
   event_generator ([bare_event (str ''judge''), text_event (str ''planner'') [str ''Done'']], None) =
     ([str ''{\"type\": \"progress\", \"text\": \"'' @ [92] @ str ''u2696'' @ [92] @
       str ''ufe0f Judge is evaluating findings...\"}'' @ [10],
       str ''{\"type\": \"result\", \"text\": \"Done\"}'' @ [10]], None)"
proof -
  let ?e = "text_event (str ''planner'') [str ''Done'']"
  have a: "author ?e \<notin> {str ''researcher'', str ''judge'', str ''content_builder''}"
    by (simp add: text_event_def str_simps)
  note t = unknown_author_text_still_counts [OF a, of "[]" "[bare_event (str ''judge'')]" "[]"]
  have f: "concat (fromEvent ?e) = str ''Done''"
    by (simp add: fromEvent_def text_event_def List.map_filter_simps part_fragment_def str_simps)
  have j: "turn_fragments [bare_event (str ''judge'')] = []"
    by (simp add: turn_fragments_def fromEvent_def bare_event_def)
  have pj: "progress_lines [bare_event (str ''judge'')] =
     [str ''{\"type\": \"progress\", \"text\": \"'' @ [92] @ str ''u2696'' @ [92] @
       str ''ufe0f Judge is evaluating findings...\"}'' @ [10]]"
    by (simp add: streaming_policy_def progress_lines_def turn_fragments_def fromEvent_def text_event_def bare_event_def
        List.map_filter_simps part_fragment_def progress_messages_def str_simps
        strip_def isspace_def encode_string_def escape_char_def hex4_def hex_digit_def)
  have r: "str ''{\"type\": \"result\", \"text\": '' @ encode_string (strip (str ''Done'')) @ str ''}'' @ [10] =
     str ''{\"type\": \"result\", \"text\": \"Done\"}'' @ [10]"
    by (simp add: streaming_policy_def progress_lines_def turn_fragments_def fromEvent_def text_event_def bare_event_def
        List.map_filter_simps part_fragment_def progress_messages_def str_simps
        strip_def isspace_def encode_string_def escape_char_def hex4_def hex_digit_def)
  from t have t1: "progress_update ?e = []" by blast
  have j0: "turn_fragments [] = []"
    by (simp add: turn_fragments_def)
  from t have x: "snd (stream_events [] ([bare_event (str ''judge'')] @ ?e # [])) =
      [] @ concat (turn_fragments [bare_event (str ''judge'')]) @ concat (fromEvent ?e) @
      concat (turn_fragments [])"
    by blast
  have t2: "snd (stream_events [] [bare_event (str ''judge''), ?e]) = str ''Done''"
    using x unfolding f j j0
    by (simp only: append_Cons append_Nil append_Nil2 concat.simps)
  from t have "event_generator ([bare_event (str ''judge'')] @ ?e # [], None) =
      (progress_lines [bare_event (str ''judge'')] @ progress_lines [] @
       [str ''{\"type\": \"result\", \"text\": '' @
          encode_string (strip (concat (turn_fragments [bare_event (str ''judge'')]) @
             concat (fromEvent ?e) @ concat (turn_fragments []))) @ str ''}'' @ [10]], None)"
    by blast
  then have t3: "event_generator ([bare_event (str ''judge''), ?e], None) =
     ([str ''{\"type\": \"progress\", \"text\": \"'' @ [92] @ str ''u2696'' @ [92] @
       str ''ufe0f Judge is evaluating findings...\"}'' @ [10],
       str ''{\"type\": \"result\", \"text\": \"Done\"}'' @ [10]], None)"
    unfolding f j pj by (simp add: turn_fragments_def progress_lines_def List.map_filter_simps r)
  from t1 t2 t3 show ?thesis by blast
qed

section \<open>The empty turn\<close>

lemma result_line_empty: "result_line [] = str ''{\"type\": \"result\", \"text\": \"\"}'' @ [10]"
  by (simp add: result_line_text encode_string_def str_simps)

text \<open>
  C9. When the runner yields no event and completes, \<open>/api/chat\<close> returns
  \<open>{"response": ""}\<close> and \<open>/api/chat_stream\<close> writes exactly one line, the result
  record \<open>{"type": "result", "text": ""}\<close>.
\<close>

theorem empty_turn_is_not_an_error:
  assumes "resolve_session svc st request = (Inr session, st1)"
    and "run_async svc st1 (user_id request) (sess_id session) (user_msg request) = (([], None), st2)"
  shows "chat svc st request = (Inr \<lparr>response = []\<rparr>, st2) \<and>
         chat_stream svc st request =
           (Inr ([str ''{\"type\": \"result\", \"text\": \"\"}'' @ [10]], None), st2)"
proof -
  have "chat_body [] = \<lparr>response = []\<rparr>"
    by (simp add: chat_body_def strip_Nil)
  moreover have "event_generator ([], None) =
      ([str ''{\"type\": \"result\", \"text\": \"\"}'' @ [10]], None)"
    by (simp add: event_generator_def strip_Nil result_line_empty)
  ultimately show ?thesis
    using assms by (simp add: chat_def chat_stream_def)
qed

text \<open>Both handlers on the in-memory services with a runner that yields nothing.\<close>

theorem empty_turn_example:
  "chat (in_memory_services (str ''judge'') (replay ([], None))) empty_memory
        \<lparr>message = [], user_id = str ''u'', session_id = str ''s''\<rparr> =
     (Inr \<lparr>response = []\<rparr>,
      \<lparr>sessions =
         [((str ''judge'', str ''u'', str ''s''),
           \<lparr>sess_app_name = str ''judge'', sess_user_id = str ''u'', sess_id = str ''s''\<rparr>)],
       uuids = 0\<rparr>) \<and>
   chat_stream (in_memory_services (str ''judge'') (replay ([], None))) empty_memory
        \<lparr>message = [], user_id = str ''u'', session_id = str ''s''\<rparr> =
     (Inr ([str ''{\"type\": \"result\", \"text\": \"\"}'' @ [10]], None),
      \<lparr>sessions =
         [((str ''judge'', str ''u'', str ''s''),
           \<lparr>sess_app_name = str ''judge'', sess_user_id = str ''u'', sess_id = str ''s''\<rparr>)],
       uuids = 0\<rparr>)"
proof -
  have ne: "str ''s'' \<noteq> []"
    by (simp add: str_simps)
  show ?thesis
    using empty_turn_is_not_an_error
      [OF in_memory_resolve_fresh
            [OF ne strip_s, of "str ''judge''" "replay ([], None)" "[]" "str ''u''"]
          in_memory_run]
    by simp
qed

section \<open>Progress lines\<close>

text \<open>
  C10. Whether an event yields a progress line depends on its author alone: two events
  of the same author yield the same lines whatever their content, and no event yields
  more than one. An event authored \<open>researcher\<close>, \<open>judge\<close> or \<open>content_builder\<close>
  yields exactly one line, the progress record of that author, given here character by
  character; any other event yields none. Every line an event yields is a progress
  record, and the stream of a completed turn has one progress record per event of a
  named author, followed by the result line.
\<close>

theorem progress_depends_on_author_only:
  "(author e = author e' \<longrightarrow> progress_update e = progress_update e') \<and>
   length (progress_update e) \<le> 1 \<and>
   (author e \<in> {str ''researcher'', str ''judge'', str ''content_builder''} \<longrightarrow>
      length (progress_update e) = 1) \<and>
   (author e = str ''researcher'' \<longrightarrow> progress_update e =
      [str ''{\"type\": \"progress\", \"text\": \"'' @ [92] @ str ''ud83d'' @ [92] @
       str ''udd0d Researcher is gathering information...\"}'' @ [10]]) \<and>
   (author e = str ''judge'' \<longrightarrow> progress_update e =
      [str ''{\"type\": \"progress\", \"text\": \"'' @ [92] @ str ''u2696'' @ [92] @
       str ''ufe0f Judge is evaluating findings...\"}'' @ [10]]) \<and>
   (author e = str ''content_builder'' \<longrightarrow> progress_update e =
      [str ''{\"type\": \"progress\", \"text\": \"'' @ [92] @ str ''u270d'' @ [92] @
       str ''ufe0f Content Builder is writing the course...\"}'' @ [10]]) \<and>
   (author e \<notin> {str ''researcher'', str ''judge'', str ''content_builder''} \<longrightarrow>
      progress_update e = []) \<and>
   (\<forall>l \<in> set (progress_update e). is_progress_line l) \<and>
   length (filter is_progress_line (fst (event_generator (events, None)))) =
     length (filter (\<lambda>e. author e \<in> {str ''researcher'', str ''judge'', str ''content_builder''}) events) \<and>
   length (fst (event_generator (events, None))) =
     Suc (length (filter (\<lambda>e. author e \<in> {str ''researcher'', str ''judge'', str ''content_builder''})
            events))"
proof -
  have one: "length (progress_update x) =
      (if author x \<in> {str ''researcher'', str ''judge'', str ''content_builder''} then 1 else 0)" for x
    by (simp add: progress_update_def)
  have pu: "progress_update x = progress_lines [x]" for x
    using concat_progress_updates [of "[x]"] by simp
  have n: "length (progress_lines events) =
      length (filter (\<lambda>e. author e \<in> {str ''researcher'', str ''judge'', str ''content_builder''}) events)"
    unfolding concat_progress_updates [symmetric]
    by (induction events) (simp_all add: one)
  have gen: "fst (event_generator (events, None)) =
      progress_lines events @
      [str ''{\"type\": \"result\", \"text\": '' @ encode_string (strip (concat (turn_fragments events))) @ str ''}'' @ [10]]"
    by (simp add: event_generator_policy streaming_policy_def)
  have c1: "author e = author e' \<longrightarrow> progress_update e = progress_update e'"
    by (simp add: progress_update_def)
  have c2: "length (progress_update e) \<le> 1"
    by (simp add: one)
  have c3: "author e \<in> {str ''researcher'', str ''judge'', str ''content_builder''} \<longrightarrow>
      length (progress_update e) = 1"
    by (simp add: one)
  have c4: "author e = str ''researcher'' \<longrightarrow> progress_update e =
      [str ''{\"type\": \"progress\", \"text\": \"'' @ [92] @ str ''ud83d'' @ [92] @
       str ''udd0d Researcher is gathering information...\"}'' @ [10]]"
    unfolding pu progress_lines_single by simp
  have c5: "author e = str ''judge'' \<longrightarrow> progress_update e =
      [str ''{\"type\": \"progress\", \"text\": \"'' @ [92] @ str ''u2696'' @ [92] @
       str ''ufe0f Judge is evaluating findings...\"}'' @ [10]]"
    unfolding pu progress_lines_single by (simp add: str_simps)
  have c6: "author e = str ''content_builder'' \<longrightarrow> progress_update e =
      [str ''{\"type\": \"progress\", \"text\": \"'' @ [92] @ str ''u270d'' @ [92] @
       str ''ufe0f Content Builder is writing the course...\"}'' @ [10]]"
    unfolding pu progress_lines_single by (simp add: str_simps)
  have c7: "author e \<notin> {str ''researcher'', str ''judge'', str ''content_builder''} \<longrightarrow>
      progress_update e = []"
    by (simp add: progress_update_def)
  have "filter is_progress_line (progress_lines [e]) = progress_lines [e]"
    by (rule all_progress_in_progress)
  then have c8: "\<forall>l \<in> set (progress_update e). is_progress_line l"
    unfolding pu by (metis filter_id_conv)
  have c9: "length (filter is_progress_line (fst (event_generator (events, None)))) =
     length (filter (\<lambda>e. author e \<in> {str ''researcher'', str ''judge'', str ''content_builder''}) events)"
    unfolding gen
    by (simp add: all_progress_in_progress is_progress_line_result n del: append_assoc)
  have c10: "length (fst (event_generator (events, None))) =
     Suc (length (filter (\<lambda>e. author e \<in> {str ''researcher'', str ''judge'', str ''content_builder''})
            events))"
    unfolding gen by (simp add: n)
  from c1 c2 c3 c4 c5 c6 c7 c8 c9 c10 show ?thesis by blast
qed

text \<open>
  A researcher event without content and one with three text parts: the same single
  progress line each, and a stream of those two lines and the result line.
\<close>

theorem progress_example:
  "progress_update (bare_event (str ''researcher'')) =
     [str ''{\"type\": \"progress\", \"text\": \"'' @ [92] @ str ''ud83d'' @ [92] @
       str ''udd0d Researcher is gathering information...\"}'' @ [10]] \<and>
   progress_update (text_event (str ''researcher'') [str ''a'', str ''b'', str ''c'']) =
     [str ''{\"type\": \"progress\", \"text\": \"'' @ [92] @ str ''ud83d'' @ [92] @
       str ''udd0d Researcher is gathering information...\"}'' @ [10]] \<and>
   length (filter is_progress_line (fst (event_generator
     ([bare_event (str ''researcher''), text_event (str ''researcher'') [str ''a'', str ''b'', str ''c'']],
      None)))) = 2 \<and>
   length (fst (event_generator
     ([bare_event (str ''researcher''), text_event (str ''researcher'') [str ''a'', str ''b'', str ''c'']],
      None))) = 3"
proof -
  let ?e1 = "bare_event (str ''researcher'')"
  let ?e2 = "text_event (str ''researcher'') [str ''a'', str ''b'', str ''c'']"
  have a1: "author ?e1 = str ''researcher''"
    by (simp add: bare_event_def)
  have a2: "author ?e2 = str ''researcher''"
    by (simp add: text_event_def)
  have c: "filter (\<lambda>e. author e \<in> {str ''researcher'', str ''judge'', str ''content_builder''}) [?e1, ?e2] = [?e1, ?e2]"
    using a1 a2 by simp
  note t1 = progress_depends_on_author_only [of ?e1 ?e2 "[?e1, ?e2]"]
  note t2 = progress_depends_on_author_only [of ?e2 ?e1 "[?e1, ?e2]"]
  from t1 a1 have p1: "progress_update ?e1 =
     [str ''{\"type\": \"progress\", \"text\": \"'' @ [92] @ str ''ud83d'' @ [92] @
       str ''udd0d Researcher is gathering information...\"}'' @ [10]]"
    by blast
  from t2 a2 have p2: "progress_update ?e2 =
     [str ''{\"type\": \"progress\", \"text\": \"'' @ [92] @ str ''ud83d'' @ [92] @
       str ''udd0d Researcher is gathering information...\"}'' @ [10]]"
    by blast
  from t1 have p3: "length (filter is_progress_line (fst (event_generator ([?e1, ?e2], None)))) = 2"
    unfolding c by simp
  from t1 have p4: "length (fst (event_generator ([?e1, ?e2], None))) = 3"
    unfolding c by simp
  from p1 p2 p3 p4 show ?thesis by blast
qed

section \<open>Feedback\<close>

text \<open>
  C8. \<open>/feedback\<close> returns \<open>{"status": "success"}\<close> for every feedback record,
  leaves the framework's state as it is and only appends the record to the log; a
  second call with the same body returns the same response and again leaves the
  framework's state unchanged.
\<close>

theorem feedback_always_succeeds:
  "collect_feedback fb (st, logged) = ([(str ''status'', str ''success'')], (st, logged @ [fb])) \<and>
   fst (collect_feedback fb (snd (collect_feedback fb (st, logged)))) =
     fst (collect_feedback fb (st, logged)) \<and>
   fst (snd (collect_feedback fb (snd (collect_feedback fb (st, logged))))) = st"
  by (simp add: collect_feedback_def)

section \<open>One creation per pair\<close>

lemma counting_simps:
  "app_name (counting svc) = app_name svc"
  "get_session (counting svc) (st, n) k = (fst (get_session svc st k), (snd (get_session svc st k), n))"
  "create_session (counting svc) (st, n) k =
     (fst (create_session svc st k), (snd (create_session svc st k), Suc n))"
  "run_async (counting svc) (st, n) u i m = (fst (run_async svc st u i m), (snd (run_async svc st u i m), n))"
  by (simp_all add: counting_def split: prod.split)

lemma in_memory_simps:
  "app_name (in_memory_services name runner) = name"
  "get_session (in_memory_services name runner) st k = (Inr (map_of (sessions st) k), st)"
  "create_session (in_memory_services name runner) = in_memory_create"
  "run_async (in_memory_services name runner) st u i m = (runner st u i m, st)"
  by (simp_all add: in_memory_services_def in_memory_get_def)

lemma chat_state:
  "snd (chat svc st r) =
     (case resolve_session svc st r of
        (Inl x, st1) \<Rightarrow> st1
      | (Inr session, st1) \<Rightarrow> snd (run_async svc st1 (user_id r) (sess_id session) (user_msg r)))"
  by (auto simp: chat_def split: prod.splits sum.splits option.splits)









text \<open>
  The same for an identifier with whitespace around it: the session is stored under the
  stripped identifier and looked up under the padded one.
\<close>

lemma padded_session_id_creates_each_time:
  "snd (snd (serve (counting (in_memory_services (str ''judge'') (replay ([], None)))) (empty_memory, 0)
       [\<lparr>message = str ''a'', user_id = str ''u'', session_id = str '' s''\<rparr>,
        \<lparr>message = str ''b'', user_id = str ''u'', session_id = str '' s''\<rparr>])) = 2"
proof -
  have s: "strip (str '' s'') = str ''s''"
    by (simp add: strip_def str_simps isspace_def)
  have "str '' s'' \<noteq> str ''s''" "str '' s'' \<noteq> []" "str ''s'' \<noteq> []"
    by (simp_all add: str_simps)
  then show ?thesis
    by (simp add: Let_def chat_state resolve_session_def counting_simps in_memory_simps
        in_memory_create_def empty_memory_def s)
qed

section \<open>Session resolution\<close>





text \<open>
  A fetch that raises an \<open>Exception\<close> makes the handler call \<open>create_session\<close>
  whatever the store holds.
\<close>

lemma failed_fetch_creates_again:
  assumes "get_session svc st (app_name svc, user_id request, session_id request) =
             (Inl (Exception x), st1)"
  shows "resolve_session (counting svc) (st, n) request =
           (fst (create_session svc st1 (app_name svc, user_id request, session_id request)),
            (snd (create_session svc st1 (app_name svc, user_id request, session_id request)), Suc n))"
  using assms by (simp add: resolve_session_def Let_def counting_def split: prod.split)

end
